theory Spec2Isabelle
  imports Main "HOL-Library.Multiset"
begin

section \<open>The watchdog's request/process bridge (watchdog/main.go)\<close>

text \<open>
  A shallow embedding of \<^verbatim>\<open>src/watchdog/main.go\<close>: \<^verbatim>\<open>buildFunctionInput\<close>,
  \<^verbatim>\<open>debugHeaders\<close>, \<^verbatim>\<open>pipeRequest\<close>, \<^verbatim>\<open>getAdditionalEnvs\<close> and
  \<^verbatim>\<open>makeRequestHandler\<close>.

  Go strings and byte slices are byte sequences, so both are \<open>string\<close> (a list of 8-bit
  characters). A Go \<^verbatim>\<open>error\<close> is \<open>None\<close> for \<^verbatim>\<open>nil\<close> and \<open>Some msg\<close> otherwise,
  \<open>msg\<close> being what \<^verbatim>\<open>err.Error()\<close> returns. A Go map is a partial function; the order in
  which a \<^verbatim>\<open>range\<close> statement visits its keys is not fixed by the language (the runtime
  picks one per loop), so every \<^verbatim>\<open>range\<close> of the source takes the order of that run as
  an input.
\<close>

subsection \<open>Data\<close>

type_synonym bytes = string
type_synonym goerror = "string option"
type_synonym header = "string \<rightharpoonup> string list"

text \<open>
  \<^verbatim>\<open>WatchdogConfig\<close> is declared outside \<^verbatim>\<open>main.go\<close>; these are the fields
  \<^verbatim>\<open>main.go\<close> reads.
\<close>

record WatchdogConfig =
  faasProcess :: string
  contentType :: string
  marshalRequest :: bool
  cgiHeaders :: bool
  debugHeaders :: bool
  writeDebug :: bool
  suppressLock :: bool
  readTimeout :: nat
  writeTimeout :: nat

text \<open>
  A body reader is what \<^verbatim>\<open>ioutil.ReadAll\<close> gets out of it: the bytes read up to the end
  or to the first failing read, and that read's error. \<^verbatim>\<open>r.Body\<close> is an interface value
  and may be \<^verbatim>\<open>nil\<close> (\<open>None\<close>).
\<close>

record Reader =
  content :: bytes
  readErr :: goerror

record Request =
  Method :: string
  Header :: header
  RawQuery :: string
  Body :: "Reader option"

text \<open>
  The response writer, as \<^verbatim>\<open>net/http\<close> specifies it: the status is fixed by the first
  \<^verbatim>\<open>WriteHeader\<close>, and a \<^verbatim>\<open>Write\<close> before any \<^verbatim>\<open>WriteHeader\<close> sends status 200.
\<close>

record ResponseWriter =
  Code :: "nat option"
  HeaderMap :: header
  Written :: bytes

text \<open>
  \<^verbatim>\<open>exec.Cmd\<close>: \<open>Env = None\<close> is Go's \<^verbatim>\<open>nil\<close> slice, with which the child inherits the
  environment of the watchdog.
\<close>

record Cmd =
  Path :: string
  Args :: "string list"
  Env :: "string list option"

datatype panic = NilPointerDereference | IndexOutOfRange

text \<open>How a call ends: it returns, it panics, or it waits for ever.\<close>

datatype completion = Returned | Panicked panic | Blocked

text \<open>
  The effects of a call, in program order. \<open>PipeOpened\<close> is \<^verbatim>\<open>targetCmd.StdinPipe()\<close>,
  which creates the pipe and returns its write end. \<open>ChildRun cmd input closed\<close> is
  \<^verbatim>\<open>targetCmd.CombinedOutput()\<close>: the child runs with the read end of that pipe as its
  standard input; \<open>input\<close> is what the handler writes to the pipe and \<open>closed\<close> tells
  whether the handler closes the write end (so that the child reads end-of-input after
  \<open>input\<close>) or leaves it open for as long as the child runs. \<^verbatim>\<open>os/exec\<close> closes what
  is left of the pipe only when it has seen the child exit; a pipe whose command is never
  run is closed by nobody but the handler.
\<close>

datatype event =
    Printed string
  | PipeOpened
  | BodyRead
  | BodyClosed
  | StdinWritten bytes
  | StdinClosed
  | ChildRun Cmd bytes bool
  | Logged Cmd string
  | StdoutWritten bytes
  | HeaderWasSet string string
  | StatusWritten nat
  | BodyWritten bytes

text \<open>
  What one run of the handler takes from outside \<^verbatim>\<open>main.go\<close>:
  \<^item> \<open>Environ\<close>: \<^verbatim>\<open>os.Environ()\<close>;
  \<^item> \<open>rangeIn\<close>, \<open>rangeEnvs\<close>, \<open>rangeOut\<close>: the key orders of the three \<^verbatim>\<open>range\<close> loops over
    a header map (\<^verbatim>\<open>debugHeaders\<close> of the request, \<^verbatim>\<open>getAdditionalEnvs\<close>,
    \<^verbatim>\<open>debugHeaders\<close> of the response);
  \<^item> \<open>MarshalRequest\<close>: \<^verbatim>\<open>types.MarshalRequest\<close>, a package of the repository that is not
    part of \<^verbatim>\<open>main.go\<close>, returning the envelope and an error;
  \<^item> \<open>child\<close>: the target executable. Given the command and its standard input (see
    \<open>ChildRun\<close>) it yields what \<^verbatim>\<open>CombinedOutput\<close> returns, the captured output and an
    error (the process could not be started or exited non-zero), or \<open>None\<close> when the
    process never exits;
  \<^item> \<open>Since\<close>: \<^verbatim>\<open>time.Since(startTime)\<close> at line 130, in nanoseconds;
  \<^item> \<open>SprintfSeconds\<close>: \<^verbatim>\<open>fmt.Sprintf("%f", d.Seconds())\<close>, a floating-point conversion
    and its formatting, left to the platform.
\<close>

record Platform =
  Environ :: "string list"
  rangeIn :: "string list"
  rangeEnvs :: "string list"
  rangeOut :: "string list"
  MarshalRequest :: "bytes \<Rightarrow> header \<Rightarrow> bytes \<times> goerror"
  child :: "Cmd \<Rightarrow> bytes \<Rightarrow> bool \<Rightarrow> (bytes \<times> goerror) option"
  Since :: nat
  SprintfSeconds :: "nat \<Rightarrow> string"

text \<open>The state a handler threads through: the response writer and the effects so far.\<close>

record Sys =
  writer :: ResponseWriter
  trace :: "event list"

text \<open>
  A key order is one a \<^verbatim>\<open>range\<close> over the map can take: every key once.
\<close>

definition rangeOrder :: "header \<Rightarrow> string list \<Rightarrow> bool" where
  "rangeOrder h ks = (distinct ks \<and> set ks = dom h)"

text \<open>
  Requests parsed by \<^verbatim>\<open>net/http\<close> hold at least one value under every header name; the
  type \<^verbatim>\<open>map[string][]string\<close> also admits an empty slice.
\<close>

definition headerValuesPresent :: "header \<Rightarrow> bool" where
  "headerValuesPresent h = (\<forall>k. h k \<noteq> Some [])"

subsection \<open>Library operations the source calls\<close>

text \<open>\<^verbatim>\<open>strings.Split(s, sep)\<close> for a separator of one byte.\<close>

fun Split :: "string \<Rightarrow> char \<Rightarrow> string list" where
  "Split [] sep = [[]]"
| "Split (c # cs) sep =
     (if c = sep then [] # Split cs sep
      else (case Split cs sep of [] \<Rightarrow> [[c]] | p # ps \<Rightarrow> (c # p) # ps))"

text \<open>\<^verbatim>\<open>exec.Command(name, arg...)\<close>: \<^verbatim>\<open>Args\<close> holds the name and the arguments.\<close>

definition Command :: "string \<Rightarrow> string list \<Rightarrow> Cmd" where
  "Command name arg = \<lparr>Path = name, Args = name # arg, Env = None\<rparr>"

text \<open>\<^verbatim>\<open>Header.Get\<close>: the first value under the key, or the empty string.\<close>

definition Get :: "header \<Rightarrow> string \<Rightarrow> string" where
  "Get h key = (case h key of None \<Rightarrow> [] | Some [] \<Rightarrow> [] | Some (v # _) \<Rightarrow> v)"

definition WriteHeader :: "nat \<Rightarrow> ResponseWriter \<Rightarrow> ResponseWriter" where
  "WriteHeader c w = (if Code w = None then w\<lparr>Code := Some c\<rparr> else w)"

definition Write :: "bytes \<Rightarrow> ResponseWriter \<Rightarrow> ResponseWriter" where
  "Write b w = (let w' = WriteHeader 200 w in w'\<lparr>Written := Written w' @ b\<rparr>)"

definition HeaderSet :: "string \<Rightarrow> string \<Rightarrow> ResponseWriter \<Rightarrow> ResponseWriter" where
  "HeaderSet k v w = w\<lparr>HeaderMap := (HeaderMap w)(k \<mapsto> [v])\<rparr>"

text \<open>The writer the server hands to a handler: nothing sent yet.\<close>

definition freshWriter :: ResponseWriter where
  "freshWriter = \<lparr>Code = None, HeaderMap = Map.empty, Written = []\<rparr>"

text \<open>\<^verbatim>\<open>%s\<close> of a \<^verbatim>\<open>[]string\<close>: the elements between brackets, separated by spaces.\<close>

fun joinSpace :: "string list \<Rightarrow> string" where
  "joinSpace [] = []"
| "joinSpace [v] = v"
| "joinSpace (v # vs) = v @ '' '' @ joinSpace vs"

definition fmtSlice :: "string list \<Rightarrow> string" where
  "fmtSlice vv = ''['' @ joinSpace vv @ '']''"

text \<open>The same operations on the threaded state, each recording its effect.\<close>

definition emit :: "event list \<Rightarrow> Sys \<Rightarrow> Sys" where
  "emit es s = s\<lparr>trace := trace s @ es\<rparr>"

definition sysWriteHeader :: "nat \<Rightarrow> Sys \<Rightarrow> Sys" where
  "sysWriteHeader c s = emit [StatusWritten c] (s\<lparr>writer := WriteHeader c (writer s)\<rparr>)"

definition sysWrite :: "bytes \<Rightarrow> Sys \<Rightarrow> Sys" where
  "sysWrite b s = emit [BodyWritten b] (s\<lparr>writer := Write b (writer s)\<rparr>)"

definition sysHeaderSet :: "string \<Rightarrow> string \<Rightarrow> Sys \<Rightarrow> Sys" where
  "sysHeaderSet k v s = emit [HeaderWasSet k v] (s\<lparr>writer := HeaderSet k v (writer s)\<rparr>)"

subsection \<open>buildFunctionInput (lines 21-39)\<close>

text \<open>
  The deferred \<^verbatim>\<open>Close\<close> is registered only for a body that is not \<^verbatim>\<open>nil\<close>;
  \<^verbatim>\<open>ioutil.ReadAll\<close> is called in either case, and on a \<^verbatim>\<open>nil\<close> reader its call of
  \<^verbatim>\<open>Read\<close> is a nil dereference. The error of \<^verbatim>\<open>ReadAll\<close> is assigned to \<^verbatim>\<open>_\<close>. The
  result is the effects and either a panic or the pair \<^verbatim>\<open>(res, err)\<close>.
\<close>

definition buildFunctionInput ::
  "WatchdogConfig \<Rightarrow> Platform \<Rightarrow> Request \<Rightarrow> event list \<times> (panic + bytes \<times> goerror)" where
  "buildFunctionInput config pf r =
     (case Body r of
        None \<Rightarrow> ([], Inl NilPointerDereference)
      | Some body \<Rightarrow>
          (let requestBytes = content body
           in ([BodyRead, BodyClosed],
               Inr (if marshalRequest config
                    then MarshalRequest pf requestBytes (Header r)
                    else (requestBytes, None)))))"

subsection \<open>debugHeaders (lines 41-45)\<close>

text \<open>One \<^verbatim>\<open>Printf\<close> per key, in the order \<open>ks\<close> of this \<^verbatim>\<open>range\<close>.\<close>

fun debugHeaders_fn :: "header \<Rightarrow> string \<Rightarrow> string list \<Rightarrow> event list" where
  "debugHeaders_fn source direction [] = []"
| "debugHeaders_fn source direction (k # ks) =
     (case source k of
        None \<Rightarrow> debugHeaders_fn source direction ks
      | Some vv \<Rightarrow>
          Printed (''['' @ direction @ ''] '' @ k @ ''='' @ fmtSlice vv @ [CHR 0x0A])
            # debugHeaders_fn source direction ks)"

subsection \<open>getAdditionalEnvs (lines 142-159)\<close>

text \<open>
  The loop of lines 147-150 over the keys \<open>ks\<close>; \<^verbatim>\<open>v[0]\<close> panics on an empty slice.
\<close>

fun rangeHeaderEnvs :: "header \<Rightarrow> string list \<Rightarrow> string list \<Rightarrow> panic + string list" where
  "rangeHeaderEnvs h [] envs = Inr envs"
| "rangeHeaderEnvs h (k # ks) envs =
     (case h k of
        None \<Rightarrow> rangeHeaderEnvs h ks envs
      | Some [] \<Rightarrow> Inl IndexOutOfRange
      | Some (v0 # _) \<Rightarrow> rangeHeaderEnvs h ks (envs @ [''Http_'' @ k @ ''='' @ v0]))"

definition getAdditionalEnvs ::
  "WatchdogConfig \<Rightarrow> Platform \<Rightarrow> Request \<Rightarrow> string \<Rightarrow> panic + string list" where
  "getAdditionalEnvs config pf r method =
     (if cgiHeaders config then
        (case rangeHeaderEnvs (Header r) (rangeEnvs pf) (Environ pf) of
           Inl p \<Rightarrow> Inl p
         | Inr envs \<Rightarrow>
             (let envs1 = envs @ [''Http_Method='' @ method]
              in Inr (if length (RawQuery r) > 0
                      then envs1 @ [''Http_Query='' @ RawQuery r]
                      else envs1)))
      else Inr [])"

subsection \<open>pipeRequest (lines 47-140)\<close>

text \<open>
  Lines 99-139: the drain goroutine, the barrier and the response. The handler passes
  \<^verbatim>\<open>wg.Wait()\<close> once \<^verbatim>\<open>CombinedOutput\<close> has returned, that is once the child has exited
  (the feeding goroutine, if any, ends by then at the latest: a write to the pipe of an
  exited child fails instead of blocking, and its result is not looked at).
\<close>

definition drainAndRespond ::
  "WatchdogConfig \<Rightarrow> Platform \<Rightarrow> Request \<Rightarrow> Cmd \<Rightarrow> bytes \<Rightarrow> bool \<Rightarrow> Sys \<Rightarrow> Sys \<times> completion" where
  "drainAndRespond config pf r targetCmd input closed s =
     (let s1 = emit [ChildRun targetCmd input closed] s
      in case child pf targetCmd input closed of
           None \<Rightarrow> (s1, Blocked)
         | Some (out, Some err) \<Rightarrow>
             (let s2 = (if writeDebug config then emit [Logged targetCmd err] s1 else s1)
              in (sysWrite err (sysWriteHeader 500 s2), Returned))
         | Some (out, None) \<Rightarrow>
             (let s2 = (if writeDebug config then emit [StdoutWritten out] s1 else s1);
                  s3 = (if length (contentType config) > 0
                        then sysHeaderSet ''Content-Type'' (contentType config) s2
                        else (let clientContentType = Get (Header r) ''Content-Type''
                              in if length clientContentType > 0
                                 then sysHeaderSet ''Content-Type'' clientContentType s2
                                 else s2));
                  s4 = sysHeaderSet ''X-Duration-Seconds'' (SprintfSeconds pf (Since pf)) s3;
                  s5 = sysWrite out (sysWriteHeader 200 s4)
              in (if debugHeaders config
                  then emit (debugHeaders_fn (HeaderMap (writer s5)) ''out'' (rangeOut pf)) s5
                  else s5,
                  Returned)))"

text \<open>
  Lines 47-97. \<^verbatim>\<open>StdinPipe\<close> (line 64) is called whatever \<^verbatim>\<open>hasBody\<close> is, and its error is
  assigned to \<^verbatim>\<open>_\<close>; the model takes the pipe as granted by the operating system. Only
  the goroutine of lines 92-96, started when \<^verbatim>\<open>hasBody\<close> holds, writes to the pipe and
  closes it. The feeding and the draining goroutine run concurrently; the trace lists the
  feeder's two effects first.
\<close>

definition pipeRequest ::
  "WatchdogConfig \<Rightarrow> Platform \<Rightarrow> ResponseWriter \<Rightarrow> Request \<Rightarrow> string \<Rightarrow> bool \<Rightarrow> Sys \<times> completion" where
  "pipeRequest config pf w r method hasBody =
     (let parts = Split (faasProcess config) CHR '' '';
          s0 = \<lparr>writer = w, trace = []\<rparr>;
          s1 = (if debugHeaders config
                then emit (debugHeaders_fn (Header r) ''in'' (rangeIn pf)) s0
                else s0)
      in case parts of
           [] \<Rightarrow> (s1, Panicked IndexOutOfRange)
         | name # arg \<Rightarrow>
             (case getAdditionalEnvs config pf r method of
                Inl p \<Rightarrow> (s1, Panicked p)
              | Inr envs \<Rightarrow>
                  (let cmd0 = Command name arg;
                       targetCmd = (if length envs > 0 then cmd0\<lparr>Env := Some envs\<rparr> else cmd0);
                       s2 = emit [PipeOpened] s1
                   in if hasBody then
                        (case buildFunctionInput config pf r of
                           (es, Inl p) \<Rightarrow> (emit es s2, Panicked p)
                         | (es, Inr (requestBody, Some buildInputErr)) \<Rightarrow>
                             (sysWrite buildInputErr (sysWriteHeader 400 (emit es s2)), Returned)
                         | (es, Inr (requestBody, None)) \<Rightarrow>
                             drainAndRespond config pf r targetCmd requestBody True
                               (emit [StdinWritten requestBody, StdinClosed] (emit es s2)))
                      else drainAndRespond config pf r targetCmd [] False s2)))"

subsection \<open>makeRequestHandler (lines 161-180)\<close>

definition makeRequestHandler ::
  "WatchdogConfig \<Rightarrow> Platform \<Rightarrow> ResponseWriter \<Rightarrow> Request \<Rightarrow> Sys \<times> completion" where
  "makeRequestHandler config pf w r =
     (if Method r = ''POST'' \<or> Method r = ''PUT'' \<or> Method r = ''DELETE'' \<or> Method r = ''UPDATE''
      then pipeRequest config pf w r (Method r) True
      else if Method r = ''GET''
      then pipeRequest config pf w r (Method r) False
      else (sysWriteHeader 405 \<lparr>writer = w, trace = []\<rparr>, Returned))"

subsection \<open>Vocabulary of the statements\<close>

text \<open>The effects that compose the HTTP response.\<close>

fun responseEvent :: "event \<Rightarrow> bool" where
  "responseEvent (HeaderWasSet k v) = True"
| "responseEvent (StatusWritten c) = True"
| "responseEvent (BodyWritten b) = True"
| "responseEvent e = False"

text \<open>The effects of the goroutine that feeds the child.\<close>

fun stdinFeed :: "event \<Rightarrow> bool" where
  "stdinFeed (StdinWritten b) = True"
| "stdinFeed StdinClosed = True"
| "stdinFeed e = False"

subsection \<open>Concrete inputs\<close>

text \<open>
  Two target executables: \<open>cat\<close> copies its standard input to its output and exits at
  end-of-input, so it never exits while the write end of its input pipe stays open;
  \<open>boom\<close> prints a word and exits with status 1 without reading.
\<close>

definition cat :: "Cmd \<Rightarrow> bytes \<Rightarrow> bool \<Rightarrow> (bytes \<times> goerror) option" where
  "cat cmd input closed = (if closed then Some (input, None) else None)"

definition boom :: "Cmd \<Rightarrow> bytes \<Rightarrow> bool \<Rightarrow> (bytes \<times> goerror) option" where
  "boom cmd input closed = Some (''boom'', Some ''exit status 1'')"

definition exampleConfig :: WatchdogConfig where
  "exampleConfig =
     \<lparr>faasProcess = ''cat'', contentType = [], marshalRequest = False, cgiHeaders = False,
      debugHeaders = False, writeDebug = False, suppressLock = False,
      readTimeout = 5, writeTimeout = 5\<rparr>"

definition examplePlatform :: Platform where
  "examplePlatform =
     \<lparr>Environ = [''PATH=/bin''], rangeIn = [''Accept'', ''X-Id''],
      rangeEnvs = [''X-Id'', ''Accept''], rangeOut = [''X-Duration-Seconds''],
      MarshalRequest = (\<lambda>body h. (body, None)), child = cat,
      Since = 1500000, SprintfSeconds = (\<lambda>d. ''0.001500'')\<rparr>"

definition exampleHeader :: header where
  "exampleHeader = [''Accept'' \<mapsto> [''text/plain'', ''*/*''], ''X-Id'' \<mapsto> [''7'']]"

definition getRequest :: Request where
  "getRequest =
     \<lparr>Method = ''GET'', Header = exampleHeader, RawQuery = ''q=1'',
      Body = Some \<lparr>content = [], readErr = None\<rparr>\<rparr>"

definition postRequest :: Request where
  "postRequest =
     \<lparr>Method = ''POST'', Header = exampleHeader, RawQuery = [],
      Body = Some \<lparr>content = ''hello'', readErr = None\<rparr>\<rparr>"

section \<open>Properties\<close>

subsection \<open>Auxiliary facts\<close>

lemma Split_nonempty: "Split s sep \<noteq> []"
  by (induction s) (auto split: list.splits)

lemma debugHeaders_fn_Printed:
  "e \<in> set (debugHeaders_fn source direction ks) \<Longrightarrow> \<exists>line. e = Printed line"
  by (induction ks) (auto split: option.splits)

lemma ChildRun_notin_debugHeaders [simp]:
  "ChildRun cmd input closed \<notin> set (debugHeaders_fn source direction ks)"
  using debugHeaders_fn_Printed by blast

lemma responseEvent_debugHeaders [simp]:
  "e \<in> set (debugHeaders_fn source direction ks) \<Longrightarrow> \<not> responseEvent e"
  using debugHeaders_fn_Printed by fastforce

lemma writer_emit [simp]: "writer (emit es s) = writer s"
  by (simp add: emit_def)

lemma trace_emit [simp]: "trace (emit es s) = trace s @ es"
  by (simp add: emit_def)

lemma writer_sysHeaderSet [simp]: "writer (sysHeaderSet k v s) = HeaderSet k v (writer s)"
  by (simp add: sysHeaderSet_def)

lemma writer_sysWriteHeader [simp]: "writer (sysWriteHeader c s) = WriteHeader c (writer s)"
  by (simp add: sysWriteHeader_def)

lemma writer_sysWrite [simp]: "writer (sysWrite b s) = Write b (writer s)"
  by (simp add: sysWrite_def)

lemma trace_sysHeaderSet [simp]: "trace (sysHeaderSet k v s) = trace s @ [HeaderWasSet k v]"
  by (simp add: sysHeaderSet_def)

lemma trace_sysWriteHeader [simp]: "trace (sysWriteHeader c s) = trace s @ [StatusWritten c]"
  by (simp add: sysWriteHeader_def)

lemma trace_sysWrite [simp]: "trace (sysWrite b s) = trace s @ [BodyWritten b]"
  by (simp add: sysWrite_def)

lemma HeaderSet_fields [simp]:
  "Code (HeaderSet k v w) = Code w"
  "Written (HeaderSet k v w) = Written w"
  "HeaderMap (HeaderSet k v w) = (HeaderMap w)(k \<mapsto> [v])"
  by (simp_all add: HeaderSet_def)

lemma WriteHeader_fields [simp]:
  "Code (WriteHeader c w) = (if Code w = None then Some c else Code w)"
  "Written (WriteHeader c w) = Written w"
  "HeaderMap (WriteHeader c w) = HeaderMap w"
  by (simp_all add: WriteHeader_def)

lemma Write_fields [simp]:
  "Code (Write b w) = (if Code w = None then Some 200 else Code w)"
  "Written (Write b w) = Written w @ b"
  "HeaderMap (Write b w) = HeaderMap w"
  by (simp_all add: Write_def Let_def)

lemma freshWriter_fields [simp]:
  "Code freshWriter = None" "Written freshWriter = []" "HeaderMap freshWriter = Map.empty"
  by (simp_all add: freshWriter_def)

lemma ResponseWriter_eqI:
  "Code w = c \<Longrightarrow> HeaderMap w = h \<Longrightarrow> Written w = b \<Longrightarrow>
   w = \<lparr>Code = c, HeaderMap = h, Written = b\<rparr>"
  by (cases w) simp

subsubsection \<open>The environment projector\<close>

lemma rangeHeaderEnvs_present:
  "headerValuesPresent h \<Longrightarrow> set ks \<subseteq> dom h \<Longrightarrow>
   rangeHeaderEnvs h ks envs = Inr (envs @ map (\<lambda>k. ''Http_'' @ k @ ''='' @ Get h k) ks)"
proof (induction ks arbitrary: envs)
  case Nil
  then show ?case by simp
next
  case (Cons k ks)
  then obtain vs where vs: "h k = Some vs" by auto
  with Cons.prems have "vs \<noteq> []" by (auto simp: headerValuesPresent_def)
  then obtain v0 rest where "vs = v0 # rest" by (cases vs) auto
  with vs Cons show ?case by (simp add: Get_def)
qed

lemma rangeHeaderEnvs_empty_value:
  "k \<in> set ks \<Longrightarrow> h k = Some [] \<Longrightarrow> rangeHeaderEnvs h ks envs = Inl IndexOutOfRange"
proof (induction ks arbitrary: envs)
  case Nil
  then show ?case by simp
next
  case (Cons k' ks)
  show ?case
  proof (cases "h k'")
    case None
    with Cons show ?thesis by auto
  next
    case (Some vs)
    with Cons show ?thesis by (cases vs) auto
  qed
qed

lemma getAdditionalEnvs_enabled:
  assumes "cgiHeaders config" and "rangeOrder (Header r) (rangeEnvs pf)"
    and "headerValuesPresent (Header r)"
  shows "getAdditionalEnvs config pf r method =
    Inr (Environ pf
         @ map (\<lambda>k. ''Http_'' @ k @ ''='' @ Get (Header r) k) (rangeEnvs pf)
         @ [''Http_Method='' @ method]
         @ (if RawQuery r = [] then [] else [''Http_Query='' @ RawQuery r]))"
  using assms rangeHeaderEnvs_present [of "Header r" "rangeEnvs pf" "Environ pf"]
  by (simp add: getAdditionalEnvs_def rangeOrder_def)

lemma getAdditionalEnvs_disabled:
  "\<not> cgiHeaders config \<Longrightarrow> getAdditionalEnvs config pf r method = Inr []"
  by (simp add: getAdditionalEnvs_def)

lemma rangeOrder_example:
  "rangeOrder exampleHeader [''X-Id'', ''Accept'']"
  "rangeOrder exampleHeader [''Accept'', ''X-Id'']"
  by (auto simp: rangeOrder_def exampleHeader_def)

lemma headerValuesPresent_example: "headerValuesPresent exampleHeader"
  by (simp add: headerValuesPresent_def exampleHeader_def)

subsubsection \<open>The process bridge\<close>

lemma drainAndRespond_ChildRun:
  assumes "ChildRun cmd input closed
      \<in> set (trace (fst (drainAndRespond config pf r targetCmd i cl s)))"
    and "ChildRun cmd input closed \<notin> set (trace s)"
  shows "cmd = targetCmd \<and> input = i \<and> closed = cl"
  using assms
  by (auto simp: drainAndRespond_def Let_def split: option.splits if_splits prod.splits)

text \<open>
  Every path of \<^verbatim>\<open>pipeRequest\<close> ends in one of three ways, and until then the response
  writer is untouched.
\<close>

lemma pipeRequest_cases:
  "(\<exists>s p. pipeRequest config pf w r method hasBody = (s, Panicked p) \<and> writer s = w
       \<and> ChildRun cmd input closed \<notin> set (trace s))
   \<or> (\<exists>s e. pipeRequest config pf w r method hasBody
              = (sysWrite e (sysWriteHeader 400 s), Returned) \<and> writer s = w
       \<and> ChildRun cmd input closed \<notin> set (trace s))
   \<or> (\<exists>s targetCmd i cl. pipeRequest config pf w r method hasBody
              = drainAndRespond config pf r targetCmd i cl s \<and> writer s = w
       \<and> ChildRun cmd input closed \<notin> set (trace s)
       \<and> \<not> list_ex responseEvent (trace s))"
proof -
  let ?s0 = "\<lparr>writer = w, trace = []\<rparr>"
  define s1 where "s1 = (if debugHeaders config
                then emit (debugHeaders_fn (Header r) ''in'' (rangeIn pf)) ?s0
                else ?s0)"
  have s1: "writer s1 = w" "ChildRun cmd input closed \<notin> set (trace s1)"
    "\<not> list_ex responseEvent (trace s1)"
    by (auto simp: s1_def list_ex_iff)
  obtain name arg where parts: "Split (faasProcess config) CHR '' '' = name # arg"
    using Split_nonempty [of "faasProcess config" "CHR '' ''"]
    by (cases "Split (faasProcess config) CHR '' ''") auto
  show ?thesis
  proof (cases "getAdditionalEnvs config pf r method")
    case (Inl p)
    then have "pipeRequest config pf w r method hasBody = (s1, Panicked p)"
      by (simp add: pipeRequest_def Let_def parts s1_def)
    with s1 show ?thesis by blast
  next
    case envs: (Inr envs)
    define targetCmd where "targetCmd =
      (if length envs > 0 then (Command name arg)\<lparr>Env := Some envs\<rparr> else Command name arg)"
    define s2 where "s2 = emit [PipeOpened] s1"
    have s2: "writer s2 = w" "ChildRun cmd input closed \<notin> set (trace s2)"
      "\<not> list_ex responseEvent (trace s2)"
      using s1 by (auto simp: s2_def list_ex_iff)
    show ?thesis
    proof (cases hasBody)
      case False
      with envs have "pipeRequest config pf w r method hasBody
          = drainAndRespond config pf r targetCmd [] False s2"
        by (simp add: pipeRequest_def Let_def parts s1_def s2_def targetCmd_def)
      with s2 show ?thesis by blast
    next
      case True
      show ?thesis
      proof (cases "Body r")
        case None
        with envs True have "pipeRequest config pf w r method hasBody
            = (emit [] s2, Panicked NilPointerDereference)"
          by (simp add: pipeRequest_def Let_def parts s1_def s2_def buildFunctionInput_def)
        moreover have "writer (emit [] s2) = w"
          "ChildRun cmd input closed \<notin> set (trace (emit [] s2))"
          using s2 by simp_all
        ultimately show ?thesis by blast
      next
        case (Some body)
        define s3 where "s3 = emit [BodyRead, BodyClosed] s2"
        have s3: "writer s3 = w" "ChildRun cmd input closed \<notin> set (trace s3)"
          "\<not> list_ex responseEvent (trace s3)"
          using s2 by (auto simp: s3_def list_ex_iff)
        obtain requestBody err where
          b: "buildFunctionInput config pf r = ([BodyRead, BodyClosed], Inr (requestBody, err))"
          using Some by (cases "if marshalRequest config
              then MarshalRequest pf (content body) (Header r) else (content body, None)")
            (simp add: buildFunctionInput_def)
        show ?thesis
        proof (cases err)
          case None
          define s4 where "s4 = emit [StdinWritten requestBody, StdinClosed] s3"
          have s4: "writer s4 = w" "ChildRun cmd input closed \<notin> set (trace s4)"
            "\<not> list_ex responseEvent (trace s4)"
            using s3 by (auto simp: s4_def list_ex_iff)
          from None envs True b have "pipeRequest config pf w r method hasBody
              = drainAndRespond config pf r targetCmd requestBody True s4"
            by (simp add: pipeRequest_def Let_def parts s1_def s2_def s3_def s4_def targetCmd_def)
          with s4 show ?thesis by blast
        next
          case (Some e)
          with envs True b have "pipeRequest config pf w r method hasBody
              = (sysWrite e (sysWriteHeader 400 s3), Returned)"
            by (simp add: pipeRequest_def Let_def parts s1_def s2_def s3_def)
          with s3 show ?thesis by blast
        qed
      qed
    qed
  qed
qed

text \<open>
  A \<open>ChildRun\<close> in the trace is the one of the draining goroutine: the run is
  \<open>drainAndRespond\<close> on that command and input.
\<close>

lemma pipeRequest_ChildRun:
  assumes "pipeRequest config pf w r method hasBody = (s, c)"
    and "ChildRun cmd input closed \<in> set (trace s)"
  shows "\<exists>s0. drainAndRespond config pf r cmd input closed s0 = (s, c)
           \<and> writer s0 = w \<and> \<not> list_ex responseEvent (trace s0)"
  using pipeRequest_cases [of config pf w r "method" hasBody cmd input closed]
proof (elim disjE exE conjE)
  fix s' p
  assume "pipeRequest config pf w r method hasBody = (s', Panicked p)"
    and "ChildRun cmd input closed \<notin> set (trace s')"
  with assms show ?thesis by simp
next
  fix s' e
  assume "pipeRequest config pf w r method hasBody
      = (sysWrite e (sysWriteHeader 400 s'), Returned)"
    and "ChildRun cmd input closed \<notin> set (trace s')"
  with assms show ?thesis by auto
next
  fix s' targetCmd i cl
  assume run: "pipeRequest config pf w r method hasBody
      = drainAndRespond config pf r targetCmd i cl s'"
    and s': "writer s' = w" "ChildRun cmd input closed \<notin> set (trace s')"
      "\<not> list_ex responseEvent (trace s')"
  from run assms(1) have eq: "drainAndRespond config pf r targetCmd i cl s' = (s, c)"
    by simp
  then have "fst (drainAndRespond config pf r targetCmd i cl s') = s" by simp
  with assms(2) have "ChildRun cmd input closed
      \<in> set (trace (fst (drainAndRespond config pf r targetCmd i cl s')))" by simp
  then have "cmd = targetCmd \<and> input = i \<and> closed = cl"
    using s'(2) by (rule drainAndRespond_ChildRun)
  with eq s' show ?thesis by auto
qed

lemma drainAndRespond_failure:
  assumes "child pf cmd input closed = Some (out, Some err)"
    and "writer s = freshWriter"
    and "drainAndRespond config pf r cmd input closed s = (s', c)"
  shows "c = Returned"
    and "writer s' = \<lparr>Code = Some 500, HeaderMap = Map.empty, Written = err\<rparr>"
proof -
  from assms(1,3) have run: "c = Returned" "s' = sysWrite err (sysWriteHeader 500
      (if writeDebug config then emit [Logged cmd err] (emit [ChildRun cmd input closed] s)
       else emit [ChildRun cmd input closed] s))"
    by (auto simp: drainAndRespond_def Let_def)
  show "c = Returned" by (rule run(1))
  show "writer s' = \<lparr>Code = Some 500, HeaderMap = Map.empty, Written = err\<rparr>"
    using run(2) assms(2) by (intro ResponseWriter_eqI) simp_all
qed

lemma drainAndRespond_success_debug:
  assumes "child pf cmd input closed = Some (out, None)"
    and "writer s = freshWriter" and "writeDebug config"
    and "\<not> list_ex responseEvent (trace s)"
    and "drainAndRespond config pf r cmd input closed s = (s', c)"
  shows "\<exists>pre post. trace s' = pre @ [StdoutWritten out] @ post
          \<and> \<not> list_ex responseEvent pre
          \<and> StatusWritten 200 \<in> set post \<and> BodyWritten out \<in> set post"
    and "c = Returned" and "Code (writer s') = Some 200" and "Written (writer s') = out"
proof -
  let ?pre = "trace s @ [ChildRun cmd input closed]"
  have pre: "\<not> list_ex responseEvent ?pre" using assms(4) by (simp add: list_ex_iff)
  have s': "s' = fst (drainAndRespond config pf r cmd input closed s)"
    and c: "c = snd (drainAndRespond config pf r cmd input closed s)"
    using assms(5) by simp_all
  have "\<exists>post. trace s' = ?pre @ [StdoutWritten out] @ post
          \<and> StatusWritten 200 \<in> set post \<and> BodyWritten out \<in> set post"
    unfolding s' using assms(1,3) by (simp add: drainAndRespond_def Let_def)
  with pre show "\<exists>pre post. trace s' = pre @ [StdoutWritten out] @ post
          \<and> \<not> list_ex responseEvent pre
          \<and> StatusWritten 200 \<in> set post \<and> BodyWritten out \<in> set post"
    by blast
  show "c = Returned"
    unfolding c using assms(1) by (simp add: drainAndRespond_def Let_def)
  show "Code (writer s') = Some 200"
    unfolding s' using assms(1,2) by (simp add: drainAndRespond_def Let_def)
  show "Written (writer s') = out"
    unfolding s' using assms(1,2) by (simp add: drainAndRespond_def Let_def)
qed

lemma drainAndRespond_duration:
  assumes "writer s = freshWriter"
  shows "HeaderMap (writer (fst (drainAndRespond config pf r cmd input closed s))) ''X-Duration-Seconds''
    = (if Code (writer (fst (drainAndRespond config pf r cmd input closed s))) = Some 200
       then Some [SprintfSeconds pf (Since pf)] else None)"
proof (cases "child pf cmd input closed")
  case None
  with assms show ?thesis by (simp add: drainAndRespond_def Let_def)
next
  case (Some res)
  obtain out err where res: "res = (out, err)" by (cases res) auto
  show ?thesis
  proof (cases err)
    case None
    with Some res assms show ?thesis by (simp add: drainAndRespond_def Let_def)
  next
    case e: (Some e)
    with Some res assms show ?thesis by (simp add: drainAndRespond_def Let_def)
  qed
qed

lemma pipeRequest_duration:
  "HeaderMap (writer (fst (pipeRequest config pf freshWriter r method hasBody))) ''X-Duration-Seconds''
    = (if Code (writer (fst (pipeRequest config pf freshWriter r method hasBody))) = Some 200
       then Some [SprintfSeconds pf (Since pf)] else None)"
  using pipeRequest_cases [of config pf freshWriter r "method" hasBody undefined undefined undefined]
proof (elim disjE exE conjE)
  fix s p
  assume "pipeRequest config pf freshWriter r method hasBody = (s, Panicked p)"
    and "writer s = freshWriter"
  then show ?thesis by simp
next
  fix s e
  assume "pipeRequest config pf freshWriter r method hasBody
      = (sysWrite e (sysWriteHeader 400 s), Returned)"
    and "writer s = freshWriter"
  then show ?thesis by simp
next
  fix s targetCmd i cl
  assume "pipeRequest config pf freshWriter r method hasBody
      = drainAndRespond config pf r targetCmd i cl s"
    and "writer s = freshWriter"
  then show ?thesis using drainAndRespond_duration by simp
qed

lemma stdinFeed_debugHeaders [simp]:
  "\<not> list_ex stdinFeed (debugHeaders_fn source direction ks)"
  using debugHeaders_fn_Printed by (fastforce simp: list_ex_iff)

lemma drainAndRespond_feed:
  "list_ex stdinFeed (trace (fst (drainAndRespond config pf r cmd input closed s)))
    = list_ex stdinFeed (trace s)"
proof (cases "child pf cmd input closed")
  case None
  then show ?thesis by (simp add: drainAndRespond_def Let_def)
next
  case (Some res)
  obtain out err where res: "res = (out, err)" by (cases res) auto
  show ?thesis
  proof (cases err)
    case None
    with Some res show ?thesis by (simp add: drainAndRespond_def Let_def)
  next
    case e: (Some e)
    with Some res show ?thesis by (simp add: drainAndRespond_def Let_def)
  qed
qed

subsubsection \<open>Stepping through a run\<close>

lemma pipeRequest_not_feeding:
  assumes "Split (faasProcess config) CHR '' '' = name # arg"
    and "\<not> cgiHeaders config" and "\<not> debugHeaders config"
  shows "pipeRequest config pf w r method False
    = drainAndRespond config pf r \<lparr>Path = name, Args = name # arg, Env = None\<rparr> [] False
        \<lparr>writer = w, trace = [PipeOpened]\<rparr>"
  using assms
  by (simp add: pipeRequest_def getAdditionalEnvs_def Let_def Command_def emit_def)

lemma pipeRequest_feeding:
  assumes "Split (faasProcess config) CHR '' '' = name # arg"
    and "\<not> cgiHeaders config" and "\<not> debugHeaders config"
    and "buildFunctionInput config pf r = (es, Inr (requestBody, None))"
  shows "pipeRequest config pf w r method True
    = drainAndRespond config pf r \<lparr>Path = name, Args = name # arg, Env = None\<rparr> requestBody True
        \<lparr>writer = w, trace = PipeOpened # es @ [StdinWritten requestBody, StdinClosed]\<rparr>"
  using assms
  by (simp add: pipeRequest_def getAdditionalEnvs_def Let_def Command_def emit_def)

lemma pipeRequest_rejected:
  assumes "Split (faasProcess config) CHR '' '' = name # arg"
    and "\<not> cgiHeaders config" and "\<not> debugHeaders config"
    and "buildFunctionInput config pf r = (es, Inr (requestBody, Some e))"
  shows "pipeRequest config pf w r method True
    = (sysWrite e (sysWriteHeader 400 \<lparr>writer = w, trace = PipeOpened # es\<rparr>), Returned)"
  using assms
  by (simp add: pipeRequest_def getAdditionalEnvs_def Let_def Command_def emit_def)

lemma drainAndRespond_blocked:
  assumes "child pf cmd input closed = None"
  shows "drainAndRespond config pf r cmd input closed s
    = (emit [ChildRun cmd input closed] s, Blocked)"
  using assms by (simp add: drainAndRespond_def Let_def)

lemma drainAndRespond_failed:
  assumes "child pf cmd input closed = Some (out, Some err)"
  shows "drainAndRespond config pf r cmd input closed s
    = (sysWrite err (sysWriteHeader 500
         (emit (if writeDebug config then [ChildRun cmd input closed, Logged cmd err]
                else [ChildRun cmd input closed]) s)), Returned)"
  using assms by (simp add: drainAndRespond_def Let_def emit_def)

lemma drainAndRespond_succeeded:
  assumes "child pf cmd input closed = Some (out, None)"
    and "contentType config = []" and "Get (Header r) ''Content-Type'' = []"
    and "\<not> debugHeaders config"
  shows "drainAndRespond config pf r cmd input closed s
    = (sysWrite out (sysWriteHeader 200
         (sysHeaderSet ''X-Duration-Seconds'' (SprintfSeconds pf (Since pf))
           (emit (if writeDebug config then [ChildRun cmd input closed, StdoutWritten out]
                  else [ChildRun cmd input closed]) s))), Returned)"
  using assms by (simp add: drainAndRespond_def Let_def emit_def)

lemma example_parts: "Split (faasProcess exampleConfig) CHR '' '' = [''cat'']"
  by (simp add: exampleConfig_def)

lemma example_flags:
  "\<not> debugHeaders exampleConfig" "\<not> writeDebug exampleConfig" "\<not> cgiHeaders exampleConfig"
  "\<not> marshalRequest exampleConfig" "contentType exampleConfig = []"
  by (simp_all add: exampleConfig_def)

lemma example_requests:
  "Method getRequest = ''GET''" "Method postRequest = ''POST''"
  "Header getRequest = exampleHeader" "Header postRequest = exampleHeader"
  "Get exampleHeader ''Content-Type'' = []"
  by (simp_all add: getRequest_def postRequest_def exampleHeader_def Get_def)

lemma example_input:
  "\<not> marshalRequest config \<Longrightarrow>
   buildFunctionInput config pf postRequest = ([BodyRead, BodyClosed], Inr (''hello'', None))"
  by (simp add: buildFunctionInput_def postRequest_def)

lemma example_child:
  "child examplePlatform cmd input False = None"
  "child examplePlatform cmd input True = Some (input, None)"
  "child (examplePlatform\<lparr>child := boom\<rparr>) cmd input closed = Some (''boom'', Some ''exit status 1'')"
  "SprintfSeconds examplePlatform (Since examplePlatform) = ''0.001500''"
  by (simp_all add: examplePlatform_def cat_def boom_def)

lemma example_post_run:
  "makeRequestHandler exampleConfig examplePlatform freshWriter postRequest
     = (\<lparr>writer = \<lparr>Code = Some 200,
                   HeaderMap = [''X-Duration-Seconds'' \<mapsto> [''0.001500'']],
                   Written = ''hello''\<rparr>,
         trace = [PipeOpened, BodyRead, BodyClosed, StdinWritten ''hello'', StdinClosed,
                  ChildRun \<lparr>Path = ''cat'', Args = [''cat''], Env = None\<rparr> ''hello'' True,
                  HeaderWasSet ''X-Duration-Seconds'' ''0.001500'',
                  StatusWritten 200, BodyWritten ''hello'']\<rparr>,
        Returned)"
  by (simp add: makeRequestHandler_def example_requests
      pipeRequest_feeding [OF example_parts example_flags(3) example_flags(1)
        example_input [OF example_flags(4)]]
      drainAndRespond_succeeded example_child example_flags
      sysWrite_def sysWriteHeader_def sysHeaderSet_def emit_def
      Write_def WriteHeader_def HeaderSet_def freshWriter_def)

lemma example_boom_run:
  "makeRequestHandler exampleConfig (examplePlatform\<lparr>child := boom\<rparr>) freshWriter postRequest
     = (\<lparr>writer = \<lparr>Code = Some 500, HeaderMap = Map.empty, Written = ''exit status 1''\<rparr>,
         trace = [PipeOpened, BodyRead, BodyClosed, StdinWritten ''hello'', StdinClosed,
                  ChildRun \<lparr>Path = ''cat'', Args = [''cat''], Env = None\<rparr> ''hello'' True,
                  StatusWritten 500, BodyWritten ''exit status 1'']\<rparr>,
        Returned)"
  by (simp add: makeRequestHandler_def example_requests
      pipeRequest_feeding [OF example_parts example_flags(3) example_flags(1)
        example_input [OF example_flags(4)]]
      drainAndRespond_failed [OF example_child(3)] example_flags
      sysWrite_def sysWriteHeader_def emit_def
      Write_def WriteHeader_def freshWriter_def)

section \<open>The claims\<close>

subsection \<open>C1: a request without a body and the child's standard input\<close>

text \<open>
  C1 says that for a method without a body (GET) the bridge never writes to the child's
  standard input and that the input stream is either closed at once or never opened, so
  that a child that waits for its input still completes. The first part holds. The
  second does not: line 64 opens the pipe before \<^verbatim>\<open>hasBody\<close> is looked at, and the
  only \<^verbatim>\<open>writer.Close()\<close> is in the goroutine that runs when \<^verbatim>\<open>hasBody\<close> holds. On a
  GET for \<open>cat\<close> the handler opens the pipe, writes and closes nothing, runs the child
  with the write end open, and the barrier is never passed.
\<close>

theorem C1_get_leaves_stdin_open_and_blocks:
  "makeRequestHandler exampleConfig examplePlatform freshWriter getRequest
     = (\<lparr>writer = freshWriter,
         trace = [PipeOpened, ChildRun \<lparr>Path = ''cat'', Args = [''cat''], Env = None\<rparr> [] False]\<rparr>,
        Blocked)"
  by (simp add: makeRequestHandler_def example_requests
      pipeRequest_not_feeding [OF example_parts example_flags(3) example_flags(1)]
      drainAndRespond_blocked example_child emit_def)

subsection \<open>C2: the timing header\<close>

text \<open>
  C2 says that every response of the handler, success and failure alike, carries
  \<^verbatim>\<open>X-Duration-Seconds\<close>. The header is set at line 131, after the returns of the
  failure paths: a child that exits with status 1 gives a 500 response without it.
\<close>

theorem C2_failure_lacks_duration_counterexample:
  "Code (writer (fst (makeRequestHandler exampleConfig (examplePlatform\<lparr>child := boom\<rparr>)
      freshWriter postRequest))) = Some 500
   \<and> HeaderMap (writer (fst (makeRequestHandler exampleConfig (examplePlatform\<lparr>child := boom\<rparr>)
      freshWriter postRequest))) ''X-Duration-Seconds'' = None"
  by (simp add: example_boom_run)

text \<open>
  C2, amended: a response of the handler carries \<^verbatim>\<open>X-Duration-Seconds\<close> exactly when its
  status is 200, and its value is then the \<^verbatim>\<open>%f\<close> text of the elapsed seconds; the
  responses with status 400, 500 and 405 do not carry it.
\<close>

theorem C2_duration_header_iff_200:
  "HeaderMap (writer (fst (makeRequestHandler config pf freshWriter r))) ''X-Duration-Seconds''
    = (if Code (writer (fst (makeRequestHandler config pf freshWriter r))) = Some 200
       then Some [SprintfSeconds pf (Since pf)] else None)"
proof -
  have "HeaderMap (writer (fst (sysWriteHeader 405 \<lparr>writer = freshWriter, trace = []\<rparr>, Returned)))
      ''X-Duration-Seconds'' = None"
    and "Code (writer (fst (sysWriteHeader 405 \<lparr>writer = freshWriter, trace = []\<rparr>, Returned)))
      = Some 405"
    by simp_all
  then show ?thesis
    unfolding makeRequestHandler_def using pipeRequest_duration by simp
qed

theorem C2_duration_header_witness:
  "Code (writer (fst (makeRequestHandler exampleConfig examplePlatform freshWriter postRequest)))
     = Some 200
   \<and> HeaderMap (writer (fst (makeRequestHandler exampleConfig examplePlatform freshWriter postRequest)))
       ''X-Duration-Seconds'' = Some [''0.001500'']"
proof -
  have ok: "Code (writer (fst (makeRequestHandler exampleConfig examplePlatform freshWriter
      postRequest))) = Some 200"
    by (simp add: example_post_run)
  with C2_duration_header_iff_200 [of exampleConfig examplePlatform postRequest]
  show ?thesis by (simp add: example_child)
qed

subsection \<open>C3: the materializer on a request without a body object\<close>

text \<open>
  C3 says that \<^verbatim>\<open>buildFunctionInput\<close> ends without an error on an empty body and on a
  \<^verbatim>\<open>nil\<close> body, with an empty byte sequence, and never crashes on a \<^verbatim>\<open>nil\<close> body. The
  guard of line 26 covers the deferred \<^verbatim>\<open>Close\<close> only; line 30 reads from the
  \<^verbatim>\<open>nil\<close> reader, which panics, whatever the configuration.
\<close>

theorem C3_nil_body_panics:
  "buildFunctionInput config pf (r\<lparr>Body := None\<rparr>) = ([], Inl NilPointerDereference)"
  by (simp add: buildFunctionInput_def)

subsection \<open>C4: the order of the projected environment\<close>

text \<open>
  C4 says that two runs of the projector on the same request and method give the same
  sequence. The header entries are appended in the order of a \<^verbatim>\<open>range\<close> over a map,
  which differs from run to run: two orders of the same two headers give two sequences.
\<close>

theorem C4_header_order_counterexample:
  "rangeOrder (Header getRequest) [''Accept'', ''X-Id'']
   \<and> rangeOrder (Header getRequest) [''X-Id'', ''Accept'']
   \<and> getAdditionalEnvs (exampleConfig\<lparr>cgiHeaders := True\<rparr>)
        (examplePlatform\<lparr>rangeEnvs := [''Accept'', ''X-Id'']\<rparr>) getRequest ''GET''
     \<noteq> getAdditionalEnvs (exampleConfig\<lparr>cgiHeaders := True\<rparr>)
        (examplePlatform\<lparr>rangeEnvs := [''X-Id'', ''Accept'']\<rparr>) getRequest ''GET''"
proof -
  have "getAdditionalEnvs (exampleConfig\<lparr>cgiHeaders := True\<rparr>)
        (examplePlatform\<lparr>rangeEnvs := [''Accept'', ''X-Id'']\<rparr>) getRequest ''GET''
      = Inr [''PATH=/bin'', ''Http_Accept=text/plain'', ''Http_X-Id=7'',
             ''Http_Method=GET'', ''Http_Query=q=1'']"
    by (simp add: getAdditionalEnvs_def getRequest_def exampleHeader_def examplePlatform_def
        Let_def)
  moreover have "getAdditionalEnvs (exampleConfig\<lparr>cgiHeaders := True\<rparr>)
        (examplePlatform\<lparr>rangeEnvs := [''X-Id'', ''Accept'']\<rparr>) getRequest ''GET''
      = Inr [''PATH=/bin'', ''Http_X-Id=7'', ''Http_Accept=text/plain'',
             ''Http_Method=GET'', ''Http_Query=q=1'']"
    by (simp add: getAdditionalEnvs_def getRequest_def exampleHeader_def examplePlatform_def
        Let_def)
  ultimately show ?thesis
    using rangeOrder_example by (simp add: example_requests)
qed

text \<open>
  C4, amended: with cgi-headers enabled, two runs on the same request and method both
  give the invoking environment, then the header entries in the iteration order of the
  run, then \<^verbatim>\<open>Http_Method\<close>, then \<^verbatim>\<open>Http_Query\<close> if the query is not empty; the two
  runs agree on the environment and on the last entries, and their header entries are
  the same up to their order.
\<close>

theorem C4_same_entries_up_to_header_order:
  assumes "cgiHeaders config"
    and "rangeOrder (Header r) ks1" and "rangeOrder (Header r) ks2"
    and "headerValuesPresent (Header r)"
  shows "getAdditionalEnvs config (pf\<lparr>rangeEnvs := ks1\<rparr>) r method =
      Inr (Environ pf
           @ map (\<lambda>k. ''Http_'' @ k @ ''='' @ Get (Header r) k) ks1
           @ [''Http_Method='' @ method]
           @ (if RawQuery r = [] then [] else [''Http_Query='' @ RawQuery r]))
    \<and> getAdditionalEnvs config (pf\<lparr>rangeEnvs := ks2\<rparr>) r method =
      Inr (Environ pf
           @ map (\<lambda>k. ''Http_'' @ k @ ''='' @ Get (Header r) k) ks2
           @ [''Http_Method='' @ method]
           @ (if RawQuery r = [] then [] else [''Http_Query='' @ RawQuery r]))
    \<and> mset (map (\<lambda>k. ''Http_'' @ k @ ''='' @ Get (Header r) k) ks1)
      = mset (map (\<lambda>k. ''Http_'' @ k @ ''='' @ Get (Header r) k) ks2)"
proof -
  from assms(2,3) have "mset ks1 = mset ks2"
    by (simp add: rangeOrder_def set_eq_iff_mset_eq_distinct [symmetric])
  then have "mset (map (\<lambda>k. ''Http_'' @ k @ ''='' @ Get (Header r) k) ks1)
      = mset (map (\<lambda>k. ''Http_'' @ k @ ''='' @ Get (Header r) k) ks2)"
    by simp
  moreover from assms
    getAdditionalEnvs_enabled [of config r "pf\<lparr>rangeEnvs := ks1\<rparr>" "method"]
    getAdditionalEnvs_enabled [of config r "pf\<lparr>rangeEnvs := ks2\<rparr>" "method"]
  have "getAdditionalEnvs config (pf\<lparr>rangeEnvs := ks1\<rparr>) r method =
      Inr (Environ pf
           @ map (\<lambda>k. ''Http_'' @ k @ ''='' @ Get (Header r) k) ks1
           @ [''Http_Method='' @ method]
           @ (if RawQuery r = [] then [] else [''Http_Query='' @ RawQuery r]))"
    and "getAdditionalEnvs config (pf\<lparr>rangeEnvs := ks2\<rparr>) r method =
      Inr (Environ pf
           @ map (\<lambda>k. ''Http_'' @ k @ ''='' @ Get (Header r) k) ks2
           @ [''Http_Method='' @ method]
           @ (if RawQuery r = [] then [] else [''Http_Query='' @ RawQuery r]))"
    by simp_all
  ultimately show ?thesis by simp
qed

theorem C4_same_entries_witness:
  "cgiHeaders (exampleConfig\<lparr>cgiHeaders := True\<rparr>)
   \<and> rangeOrder (Header getRequest) [''Accept'', ''X-Id'']
   \<and> rangeOrder (Header getRequest) [''X-Id'', ''Accept'']
   \<and> headerValuesPresent (Header getRequest)
   \<and> getAdditionalEnvs (exampleConfig\<lparr>cgiHeaders := True\<rparr>)
        (examplePlatform\<lparr>rangeEnvs := [''Accept'', ''X-Id'']\<rparr>) getRequest ''GET''
       = Inr [''PATH=/bin'', ''Http_Accept=text/plain'', ''Http_X-Id=7'',
              ''Http_Method=GET'', ''Http_Query=q=1'']
   \<and> getAdditionalEnvs (exampleConfig\<lparr>cgiHeaders := True\<rparr>)
        (examplePlatform\<lparr>rangeEnvs := [''X-Id'', ''Accept'']\<rparr>) getRequest ''GET''
       = Inr [''PATH=/bin'', ''Http_X-Id=7'', ''Http_Accept=text/plain'',
              ''Http_Method=GET'', ''Http_Query=q=1'']
   \<and> mset [''Http_Accept=text/plain'', ''Http_X-Id=7'']
       = mset [''Http_X-Id=7'', ''Http_Accept=text/plain'']"
proof -
  have h: "cgiHeaders (exampleConfig\<lparr>cgiHeaders := True\<rparr>)"
    "rangeOrder (Header getRequest) [''Accept'', ''X-Id'']"
    "rangeOrder (Header getRequest) [''X-Id'', ''Accept'']"
    "headerValuesPresent (Header getRequest)"
    using rangeOrder_example headerValuesPresent_example by (simp_all add: example_requests)
  have v: "Get (Header getRequest) ''Accept'' = ''text/plain''"
    "Get (Header getRequest) ''X-Id'' = ''7''" "RawQuery getRequest = ''q=1''"
    "Environ examplePlatform = [''PATH=/bin'']"
    by (simp_all add: getRequest_def exampleHeader_def Get_def examplePlatform_def)
  from C4_same_entries_up_to_header_order [OF h, of examplePlatform "''GET''"] h v
  show ?thesis by simp
qed

subsection \<open>C5: a failing envelope encoding\<close>

text \<open>
  C5 says that when the envelope encoding fails the handler answers 400 with the
  failure's message, spawns no child and leaks no resource, every opened pipe and reader
  being released. The answer is as claimed, the body reader is closed and no child is
  run; but the pipe of line 64 is open by then, and the return of line 83 leaves it so:
  the trace of such a request holds \<open>PipeOpened\<close> and neither \<open>StdinClosed\<close> nor a
  \<open>ChildRun\<close>, whose end would close the pipe.
\<close>

theorem C5_rejected_request_leaves_pipe_open:
  "makeRequestHandler (exampleConfig\<lparr>marshalRequest := True\<rparr>)
      (examplePlatform\<lparr>MarshalRequest := (\<lambda>body h. ([], Some ''json: unsupported value''))\<rparr>)
      freshWriter postRequest
     = (\<lparr>writer = \<lparr>Code = Some 400, HeaderMap = Map.empty,
                   Written = ''json: unsupported value''\<rparr>,
         trace = [PipeOpened, BodyRead, BodyClosed,
                  StatusWritten 400, BodyWritten ''json: unsupported value'']\<rparr>,
        Returned)"
proof -
  let ?config = "exampleConfig\<lparr>marshalRequest := True\<rparr>"
  let ?pf = "examplePlatform\<lparr>MarshalRequest := (\<lambda>body h. ([], Some ''json: unsupported value''))\<rparr>"
  have parts: "Split (faasProcess ?config) CHR '' '' = [''cat'']"
    and flags: "\<not> cgiHeaders ?config" "\<not> debugHeaders ?config"
    by (simp_all add: exampleConfig_def)
  have input: "buildFunctionInput ?config ?pf postRequest
      = ([BodyRead, BodyClosed], Inr ([], Some ''json: unsupported value''))"
    by (simp add: buildFunctionInput_def postRequest_def)
  show ?thesis
    by (simp add: makeRequestHandler_def example_requests
        pipeRequest_rejected [OF parts flags input]
        sysWrite_def sysWriteHeader_def emit_def Write_def WriteHeader_def freshWriter_def)
qed

subsection \<open>C6: a failing child\<close>

text \<open>
  C6: whenever the child process that the handler runs exits non-zero or cannot be
  started, the handler returns, the response has status 500, its body is the error
  description and nothing else (the captured output is not part of it), and no header
  is set.
\<close>

theorem C6_child_failure_gives_500:
  assumes "pipeRequest config pf freshWriter r method hasBody = (s, c)"
    and "ChildRun cmd input closed \<in> set (trace s)"
    and "child pf cmd input closed = Some (out, Some err)"
  shows "c = Returned \<and> Code (writer s) = Some 500 \<and> Written (writer s) = err
    \<and> HeaderMap (writer s) = Map.empty"
proof -
  from assms(1,2) obtain s0 where
    s0: "drainAndRespond config pf r cmd input closed s0 = (s, c)" "writer s0 = freshWriter"
    using pipeRequest_ChildRun by blast
  from drainAndRespond_failure [OF assms(3) s0(2) s0(1)]
  show ?thesis by simp
qed

theorem C6_child_failure_witness:
  "ChildRun \<lparr>Path = ''cat'', Args = [''cat''], Env = None\<rparr> ''hello'' True
     \<in> set (trace (fst (pipeRequest exampleConfig (examplePlatform\<lparr>child := boom\<rparr>)
          freshWriter postRequest ''POST'' True)))
   \<and> child (examplePlatform\<lparr>child := boom\<rparr>)
        \<lparr>Path = ''cat'', Args = [''cat''], Env = None\<rparr> ''hello'' True
      = Some (''boom'', Some ''exit status 1'')
   \<and> snd (pipeRequest exampleConfig (examplePlatform\<lparr>child := boom\<rparr>)
          freshWriter postRequest ''POST'' True) = Returned
   \<and> writer (fst (pipeRequest exampleConfig (examplePlatform\<lparr>child := boom\<rparr>)
          freshWriter postRequest ''POST'' True))
      = \<lparr>Code = Some 500, HeaderMap = Map.empty, Written = ''exit status 1''\<rparr>"
proof -
  let ?run = "pipeRequest exampleConfig (examplePlatform\<lparr>child := boom\<rparr>)
      freshWriter postRequest ''POST'' True"
  let ?cmd = "\<lparr>Path = ''cat'', Args = [''cat''], Env = None\<rparr>"
  have run: "?run = (fst ?run, snd ?run)" by simp
  have ev: "ChildRun ?cmd ''hello'' True \<in> set (trace (fst ?run))"
    using example_boom_run by (simp add: makeRequestHandler_def example_requests)
  have ch: "child (examplePlatform\<lparr>child := boom\<rparr>) ?cmd ''hello'' True
      = Some (''boom'', Some ''exit status 1'')"
    by (rule example_child)
  from C6_child_failure_gives_500 [OF run ev ch] ev ch
  show ?thesis by (intro conjI ResponseWriter_eqI) simp_all
qed

subsection \<open>C7: the environment projector\<close>

text \<open>
  C7: with cgi-headers disabled the projector returns the empty sequence. With it
  enabled it returns the environment of the invoking process, then one entry
  \<^verbatim>\<open>Http_<name>=<first value>\<close> for every header of the request, in the order of the
  iteration, then \<^verbatim>\<open>Http_Method=<method>\<close>, then \<^verbatim>\<open>Http_Query=<raw query>\<close> if and only
  if the raw query is not empty. (Every header of an inbound request has a first value;
  on an empty value slice \<^verbatim>\<open>v[0]\<close> panics, see \<open>rangeHeaderEnvs_empty_value\<close>.)
\<close>

theorem C7_environment_projection:
  assumes "rangeOrder (Header r) (rangeEnvs pf)" and "headerValuesPresent (Header r)"
  shows "getAdditionalEnvs config pf r method =
    Inr (if cgiHeaders config
         then Environ pf
              @ map (\<lambda>k. ''Http_'' @ k @ ''='' @ Get (Header r) k) (rangeEnvs pf)
              @ [''Http_Method='' @ method]
              @ (if RawQuery r = [] then [] else [''Http_Query='' @ RawQuery r])
         else [])"
  using assms getAdditionalEnvs_enabled getAdditionalEnvs_disabled by simp

theorem C7_environment_projection_witness:
  "rangeOrder (Header postRequest) (rangeEnvs examplePlatform)
   \<and> headerValuesPresent (Header postRequest)
   \<and> getAdditionalEnvs (exampleConfig\<lparr>cgiHeaders := True\<rparr>) examplePlatform postRequest ''POST''
       = Inr [''PATH=/bin'', ''Http_X-Id=7'', ''Http_Accept=text/plain'', ''Http_Method=POST'']
   \<and> getAdditionalEnvs (exampleConfig\<lparr>cgiHeaders := True\<rparr>) examplePlatform
         (postRequest\<lparr>RawQuery := ''a=b''\<rparr>) ''POST''
       = Inr [''PATH=/bin'', ''Http_X-Id=7'', ''Http_Accept=text/plain'', ''Http_Method=POST'',
              ''Http_Query=a=b'']
   \<and> getAdditionalEnvs exampleConfig examplePlatform postRequest ''POST'' = Inr []"
proof -
  have h: "rangeOrder (Header postRequest) (rangeEnvs examplePlatform)"
    "headerValuesPresent (Header postRequest)"
    "rangeOrder (Header (postRequest\<lparr>RawQuery := ''a=b''\<rparr>)) (rangeEnvs examplePlatform)"
    "headerValuesPresent (Header (postRequest\<lparr>RawQuery := ''a=b''\<rparr>))"
    using rangeOrder_example headerValuesPresent_example
    by (simp_all add: example_requests examplePlatform_def)
  have v: "Get (Header postRequest) ''Accept'' = ''text/plain''"
    "Get (Header postRequest) ''X-Id'' = ''7''" "RawQuery postRequest = []"
    "Environ examplePlatform = [''PATH=/bin'']"
    "rangeEnvs examplePlatform = [''X-Id'', ''Accept'']"
    by (simp_all add: postRequest_def exampleHeader_def Get_def examplePlatform_def)
  from C7_environment_projection [OF h(1,2), of "exampleConfig\<lparr>cgiHeaders := True\<rparr>" "''POST''"]
    C7_environment_projection [OF h(3,4), of "exampleConfig\<lparr>cgiHeaders := True\<rparr>" "''POST''"]
    C7_environment_projection [OF h(1,2), of exampleConfig "''POST''"]
    h v example_flags
  show ?thesis by simp
qed

subsection \<open>C8: the classification of the method\<close>

text \<open>
  C8: the entry point runs the bridge with has-body true for POST, PUT, DELETE and
  UPDATE and with has-body false for GET; for any other method it answers 405 and does
  nothing else (the only effect is the write of the status).
\<close>

theorem C8_method_classification:
  "(Method r \<in> {''POST'', ''PUT'', ''DELETE'', ''UPDATE''} \<longrightarrow>
      makeRequestHandler config pf w r = pipeRequest config pf w r (Method r) True)
   \<and> (Method r = ''GET'' \<longrightarrow>
      makeRequestHandler config pf w r = pipeRequest config pf w r (Method r) False)
   \<and> (Method r \<notin> {''POST'', ''PUT'', ''DELETE'', ''UPDATE'', ''GET''} \<longrightarrow>
      makeRequestHandler config pf w r
        = (\<lparr>writer = WriteHeader 405 w, trace = [StatusWritten 405]\<rparr>, Returned)
      \<and> makeRequestHandler config pf freshWriter r
        = (\<lparr>writer = \<lparr>Code = Some 405, HeaderMap = Map.empty, Written = []\<rparr>,
             trace = [StatusWritten 405]\<rparr>, Returned))"
  by (simp add: makeRequestHandler_def sysWriteHeader_def emit_def WriteHeader_def
      freshWriter_def)

theorem C8_method_classification_witness:
  "Method postRequest \<in> {''POST'', ''PUT'', ''DELETE'', ''UPDATE''}
   \<and> makeRequestHandler exampleConfig examplePlatform freshWriter postRequest
       = pipeRequest exampleConfig examplePlatform freshWriter postRequest ''POST'' True
   \<and> Method getRequest = ''GET''
   \<and> makeRequestHandler exampleConfig examplePlatform freshWriter getRequest
       = pipeRequest exampleConfig examplePlatform freshWriter getRequest ''GET'' False
   \<and> Method (getRequest\<lparr>Method := ''PATCH''\<rparr>)
       \<notin> {''POST'', ''PUT'', ''DELETE'', ''UPDATE'', ''GET''}
   \<and> makeRequestHandler exampleConfig examplePlatform freshWriter (getRequest\<lparr>Method := ''PATCH''\<rparr>)
       = (\<lparr>writer = \<lparr>Code = Some 405, HeaderMap = Map.empty, Written = []\<rparr>,
           trace = [StatusWritten 405]\<rparr>, Returned)"
proof -
  have m: "Method (getRequest\<lparr>Method := ''PATCH''\<rparr>) = ''PATCH''" by simp
  from C8_method_classification [of postRequest exampleConfig examplePlatform freshWriter]
    C8_method_classification [of getRequest exampleConfig examplePlatform freshWriter]
    C8_method_classification [of "getRequest\<lparr>Method := ''PATCH''\<rparr>" exampleConfig
      examplePlatform freshWriter]
  show ?thesis unfolding m example_requests by simp
qed

subsection \<open>C9: an error of the body read\<close>

text \<open>
  C9: an error returned by the read of the request body is discarded: the materializer
  goes on with the bytes that were read, exactly as after a read without error, and
  with marshal-request disabled it returns these bytes and never returns an error.
\<close>

theorem C9_read_error_discarded:
  "buildFunctionInput config pf (r\<lparr>Body := Some \<lparr>content = bs, readErr = Some e\<rparr>\<rparr>)
     = buildFunctionInput config pf (r\<lparr>Body := Some \<lparr>content = bs, readErr = None\<rparr>\<rparr>)
   \<and> (\<not> marshalRequest config \<longrightarrow>
        snd (buildFunctionInput config pf (r\<lparr>Body := Some \<lparr>content = bs, readErr = Some e\<rparr>\<rparr>))
          = Inr (bs, None))
   \<and> (\<not> marshalRequest config \<longrightarrow>
        (\<forall>res err. snd (buildFunctionInput config pf r) \<noteq> Inr (res, Some err)))"
  by (simp add: buildFunctionInput_def split: option.splits)

theorem C9_read_error_discarded_witness:
  "\<not> marshalRequest exampleConfig
   \<and> snd (buildFunctionInput exampleConfig examplePlatform
        (postRequest\<lparr>Body := Some \<lparr>content = ''hel'', readErr = Some ''unexpected EOF''\<rparr>\<rparr>))
       = Inr (''hel'', None)
   \<and> buildFunctionInput (exampleConfig\<lparr>marshalRequest := True\<rparr>) examplePlatform
        (postRequest\<lparr>Body := Some \<lparr>content = ''hel'', readErr = Some ''unexpected EOF''\<rparr>\<rparr>)
       = buildFunctionInput (exampleConfig\<lparr>marshalRequest := True\<rparr>) examplePlatform
        (postRequest\<lparr>Body := Some \<lparr>content = ''hel'', readErr = None\<rparr>\<rparr>)"
proof -
  have off: "\<not> marshalRequest exampleConfig" by (rule example_flags)
  from off C9_read_error_discarded [where config = exampleConfig and pf = examplePlatform
      and r = postRequest and bs = "''hel''" and e = "''unexpected EOF''"]
  have raw: "snd (buildFunctionInput exampleConfig examplePlatform
        (postRequest\<lparr>Body := Some \<lparr>content = ''hel'', readErr = Some ''unexpected EOF''\<rparr>\<rparr>))
       = Inr (''hel'', None)"
    by blast
  from C9_read_error_discarded [where config = "exampleConfig\<lparr>marshalRequest := True\<rparr>"
      and pf = examplePlatform and r = postRequest and bs = "''hel''"
      and e = "''unexpected EOF''"]
  have same: "buildFunctionInput (exampleConfig\<lparr>marshalRequest := True\<rparr>) examplePlatform
        (postRequest\<lparr>Body := Some \<lparr>content = ''hel'', readErr = Some ''unexpected EOF''\<rparr>\<rparr>)
       = buildFunctionInput (exampleConfig\<lparr>marshalRequest := True\<rparr>) examplePlatform
        (postRequest\<lparr>Body := Some \<lparr>content = ''hel'', readErr = None\<rparr>\<rparr>)"
    by (rule conjunct1)
  from off raw same show ?thesis by (intro conjI)
qed

subsection \<open>C10: the echo of the output with write-debug\<close>

text \<open>
  C10: when write-debug is enabled and the child the handler runs succeeds, the
  captured output is written to the standard output of the server before any part of
  the response is composed; the response then has status 200 and the output as body.
\<close>

theorem C10_debug_output_echoed_on_success:
  assumes "pipeRequest config pf freshWriter r method hasBody = (s, c)"
    and "ChildRun cmd input closed \<in> set (trace s)"
    and "child pf cmd input closed = Some (out, None)"
    and "writeDebug config"
  shows "(\<exists>pre post. trace s = pre @ [StdoutWritten out] @ post
          \<and> \<not> list_ex responseEvent pre
          \<and> StatusWritten 200 \<in> set post \<and> BodyWritten out \<in> set post)
    \<and> c = Returned \<and> Code (writer s) = Some 200 \<and> Written (writer s) = out"
proof -
  from assms(1,2) obtain s0 where
    s0: "drainAndRespond config pf r cmd input closed s0 = (s, c)" "writer s0 = freshWriter"
      "\<not> list_ex responseEvent (trace s0)"
    using pipeRequest_ChildRun by blast
  from drainAndRespond_success_debug [OF assms(3) s0(2) assms(4) s0(3) s0(1)]
  show ?thesis by simp
qed

theorem C10_debug_output_witness:
  "pipeRequest (exampleConfig\<lparr>writeDebug := True\<rparr>) examplePlatform freshWriter postRequest
       ''POST'' True
     = (\<lparr>writer = \<lparr>Code = Some 200,
                   HeaderMap = [''X-Duration-Seconds'' \<mapsto> [''0.001500'']],
                   Written = ''hello''\<rparr>,
         trace = [PipeOpened, BodyRead, BodyClosed, StdinWritten ''hello'', StdinClosed,
                  ChildRun \<lparr>Path = ''cat'', Args = [''cat''], Env = None\<rparr> ''hello'' True]
                 @ [StdoutWritten ''hello'']
                 @ [HeaderWasSet ''X-Duration-Seconds'' ''0.001500'',
                    StatusWritten 200, BodyWritten ''hello'']\<rparr>,
        Returned)
   \<and> child examplePlatform \<lparr>Path = ''cat'', Args = [''cat''], Env = None\<rparr> ''hello'' True
       = Some (''hello'', None)
   \<and> writeDebug (exampleConfig\<lparr>writeDebug := True\<rparr>)
   \<and> (\<exists>pre post.
         [PipeOpened, BodyRead, BodyClosed, StdinWritten ''hello'', StdinClosed,
          ChildRun \<lparr>Path = ''cat'', Args = [''cat''], Env = None\<rparr> ''hello'' True,
          StdoutWritten ''hello'', HeaderWasSet ''X-Duration-Seconds'' ''0.001500'',
          StatusWritten 200, BodyWritten ''hello'']
           = pre @ [StdoutWritten ''hello''] @ post
         \<and> \<not> list_ex responseEvent pre
         \<and> StatusWritten 200 \<in> set post \<and> BodyWritten ''hello'' \<in> set post)"
proof -
  let ?config = "exampleConfig\<lparr>writeDebug := True\<rparr>"
  let ?cmd = "\<lparr>Path = ''cat'', Args = [''cat''], Env = None\<rparr>"
  have parts: "Split (faasProcess ?config) CHR '' '' = [''cat'']"
    and flags: "\<not> cgiHeaders ?config" "\<not> debugHeaders ?config" "\<not> marshalRequest ?config"
      "contentType ?config = []" "writeDebug ?config"
    by (simp_all add: exampleConfig_def)
  have ch: "child examplePlatform ?cmd ''hello'' True = Some (''hello'', None)"
    by (rule example_child)
  have run: "pipeRequest ?config examplePlatform freshWriter postRequest ''POST'' True
     = (\<lparr>writer = \<lparr>Code = Some 200,
                   HeaderMap = [''X-Duration-Seconds'' \<mapsto> [''0.001500'']],
                   Written = ''hello''\<rparr>,
         trace = [PipeOpened, BodyRead, BodyClosed, StdinWritten ''hello'', StdinClosed,
                  ChildRun ?cmd ''hello'' True, StdoutWritten ''hello'',
                  HeaderWasSet ''X-Duration-Seconds'' ''0.001500'',
                  StatusWritten 200, BodyWritten ''hello'']\<rparr>,
        Returned)"
    by (simp add: pipeRequest_feeding [OF parts flags(1,2) example_input [OF flags(3)]]
        drainAndRespond_succeeded [OF ch flags(4) _ flags(2)] example_requests example_child flags
        sysWrite_def sysWriteHeader_def sysHeaderSet_def emit_def
        Write_def WriteHeader_def HeaderSet_def freshWriter_def)
  have ev: "ChildRun ?cmd ''hello'' True
      \<in> set (trace \<lparr>writer = \<lparr>Code = Some 200,
                   HeaderMap = [''X-Duration-Seconds'' \<mapsto> [''0.001500'']],
                   Written = ''hello''\<rparr>,
         trace = [PipeOpened, BodyRead, BodyClosed, StdinWritten ''hello'', StdinClosed,
                  ChildRun ?cmd ''hello'' True, StdoutWritten ''hello'',
                  HeaderWasSet ''X-Duration-Seconds'' ''0.001500'',
                  StatusWritten 200, BodyWritten ''hello'']\<rparr>)"
    by simp
  from C10_debug_output_echoed_on_success [OF run ev ch flags(5)] run ch flags(5)
  show ?thesis by simp
qed

section \<open>Further properties of the bridge\<close>

subsection \<open>A request without a body is never fed to the child\<close>

text \<open>
  With \<^verbatim>\<open>hasBody\<close> false the goroutine of lines 92-96 is not started: no run writes to
  the child's standard input or closes it.
\<close>

theorem pipeRequest_without_body_never_feeds:
  "\<not> list_ex stdinFeed (trace (fst (pipeRequest config pf w r method False)))"
proof -
  let ?s0 = "\<lparr>writer = w, trace = []\<rparr>"
  define s1 where "s1 = (if debugHeaders config
                then emit (debugHeaders_fn (Header r) ''in'' (rangeIn pf)) ?s0
                else ?s0)"
  have s1: "\<not> list_ex stdinFeed (trace s1)"
    by (simp add: s1_def)
  obtain name arg where parts: "Split (faasProcess config) CHR '' '' = name # arg"
    using Split_nonempty [of "faasProcess config" "CHR '' ''"]
    by (cases "Split (faasProcess config) CHR '' ''") auto
  show ?thesis
  proof (cases "getAdditionalEnvs config pf r method")
    case (Inl p)
    then have "pipeRequest config pf w r method False = (s1, Panicked p)"
      by (simp add: pipeRequest_def Let_def parts s1_def)
    with s1 show ?thesis by simp
  next
    case (Inr envs)
    define targetCmd where "targetCmd =
      (if length envs > 0 then (Command name arg)\<lparr>Env := Some envs\<rparr> else Command name arg)"
    from Inr have "pipeRequest config pf w r method False
        = drainAndRespond config pf r targetCmd [] False (emit [PipeOpened] s1)"
      by (simp add: pipeRequest_def Let_def parts s1_def targetCmd_def)
    with s1 show ?thesis by (simp add: drainAndRespond_feed)
  qed
qed

subsection \<open>The rejected request in general\<close>

text \<open>
  Whenever \<^verbatim>\<open>buildFunctionInput\<close> returns an error, the handler answers 400 with the
  message as body and performs exactly these effects: the headers' debug lines if
  enabled, the opening of the pipe, the effects of the materializer, the two writes of
  the response. No child is run.
\<close>

theorem pipeRequest_encoding_failure:
  assumes "getAdditionalEnvs config pf r method = Inr envs"
    and "buildFunctionInput config pf r = (es, Inr (requestBody, Some e))"
  shows "pipeRequest config pf freshWriter r method True
    = (\<lparr>writer = \<lparr>Code = Some 400, HeaderMap = Map.empty, Written = e\<rparr>,
        trace = (if debugHeaders config
                 then debugHeaders_fn (Header r) ''in'' (rangeIn pf) else [])
                @ PipeOpened # es @ [StatusWritten 400, BodyWritten e]\<rparr>,
       Returned)"
proof -
  obtain name arg where parts: "Split (faasProcess config) CHR '' '' = name # arg"
    using Split_nonempty [of "faasProcess config" "CHR '' ''"]
    by (cases "Split (faasProcess config) CHR '' ''") auto
  from assms show ?thesis
    by (simp add: pipeRequest_def Let_def parts sysWrite_def sysWriteHeader_def emit_def
        Write_def WriteHeader_def freshWriter_def)
qed

theorem pipeRequest_encoding_failure_witness:
  "getAdditionalEnvs (exampleConfig\<lparr>marshalRequest := True\<rparr>)
      (examplePlatform\<lparr>MarshalRequest := (\<lambda>body h. (''{'', Some ''json: error''))\<rparr>)
      postRequest ''PUT'' = Inr []
   \<and> buildFunctionInput (exampleConfig\<lparr>marshalRequest := True\<rparr>)
      (examplePlatform\<lparr>MarshalRequest := (\<lambda>body h. (''{'', Some ''json: error''))\<rparr>)
      postRequest = ([BodyRead, BodyClosed], Inr (''{'', Some ''json: error''))
   \<and> pipeRequest (exampleConfig\<lparr>marshalRequest := True\<rparr>)
      (examplePlatform\<lparr>MarshalRequest := (\<lambda>body h. (''{'', Some ''json: error''))\<rparr>)
      freshWriter postRequest ''PUT'' True
    = (\<lparr>writer = \<lparr>Code = Some 400, HeaderMap = Map.empty, Written = ''json: error''\<rparr>,
        trace = [PipeOpened, BodyRead, BodyClosed, StatusWritten 400, BodyWritten ''json: error'']\<rparr>,
       Returned)"
proof -
  let ?config = "exampleConfig\<lparr>marshalRequest := True\<rparr>"
  let ?pf = "examplePlatform\<lparr>MarshalRequest := (\<lambda>body h. (''{'', Some ''json: error''))\<rparr>"
  have envs: "getAdditionalEnvs ?config ?pf postRequest ''PUT'' = Inr []"
    by (simp add: getAdditionalEnvs_def exampleConfig_def)
  have input: "buildFunctionInput ?config ?pf postRequest
      = ([BodyRead, BodyClosed], Inr (''{'', Some ''json: error''))"
    by (simp add: buildFunctionInput_def postRequest_def)
  have off: "\<not> debugHeaders ?config" by (simp add: exampleConfig_def)
  from pipeRequest_encoding_failure [OF envs input] envs input off
  show ?thesis by simp
qed

subsection \<open>A header without a value\<close>

text \<open>
  With cgi-headers enabled, a header whose value slice is empty makes \<^verbatim>\<open>v[0]\<close> at line
  148 panic.
\<close>

theorem getAdditionalEnvs_empty_value_panics:
  assumes "cgiHeaders config" and "k \<in> set (rangeEnvs pf)" and "Header r k = Some []"
  shows "getAdditionalEnvs config pf r method = Inl IndexOutOfRange"
  using assms rangeHeaderEnvs_empty_value [of k "rangeEnvs pf" "Header r" "Environ pf"]
  by (simp add: getAdditionalEnvs_def)

theorem getAdditionalEnvs_empty_value_witness:
  "cgiHeaders (exampleConfig\<lparr>cgiHeaders := True\<rparr>)
   \<and> ''X-Id'' \<in> set (rangeEnvs examplePlatform)
   \<and> Header (getRequest\<lparr>Header := exampleHeader(''X-Id'' \<mapsto> [])\<rparr>) ''X-Id'' = Some []
   \<and> getAdditionalEnvs (exampleConfig\<lparr>cgiHeaders := True\<rparr>) examplePlatform
        (getRequest\<lparr>Header := exampleHeader(''X-Id'' \<mapsto> [])\<rparr>) ''GET''
       = Inl IndexOutOfRange"
proof -
  have h: "cgiHeaders (exampleConfig\<lparr>cgiHeaders := True\<rparr>)"
    "''X-Id'' \<in> set (rangeEnvs examplePlatform)"
    "Header (getRequest\<lparr>Header := exampleHeader(''X-Id'' \<mapsto> [])\<rparr>) ''X-Id'' = Some []"
    by (simp_all add: examplePlatform_def)
  from getAdditionalEnvs_empty_value_panics [OF h, of "''GET''"] h
  show ?thesis by (intro conjI)
qed

end
